theory Spec2Isabelle
  imports Main "HOL-Library.Sublist"
begin

section \<open>Values, exceptions and the world\<close>

text \<open>
  The repository is a strategy registry (\<^verbatim>\<open>factory/strategy_factory.py\<close>), a linear
  pipeline (\<^verbatim>\<open>pipeline/base.py\<close>), two pipeline steps (\<^verbatim>\<open>pipeline/steps.py\<close>) and one
  strategy (\<^verbatim>\<open>strategies/analysis_one.py\<close>). Python exceptions are values of \<open>exn\<close>;
  every function that can raise returns \<open>exn + 'a\<close>, with \<open>Inl\<close> the exception.

  \<^item> \<open>ValueError msg\<close> is raised by \<^verbatim>\<open>StrategyFactory.create\<close> itself, with the
    f-string of the source as its message, and by \<^verbatim>\<open>pd.read_csv\<close> for an argument that
    is neither a path nor a buffer.
  \<^item> \<open>TypeError\<close> is raised by the interpreter: a call whose arguments do not bind to
    the parameters, the instantiation of an abstract class, a subscript on \<^verbatim>\<open>None\<close>, a
    comparison of a string with a number.
  \<^item> \<open>ColumnNotFound\<close>, \<open>SourceUnavailable\<close> and \<open>SourceFormatError\<close> are raised inside
    pandas, which is not part of the repository; they carry the names the
    specification gives them.
\<close>

datatype exn =
    ValueError string
  | TypeError
  | ColumnNotFound string
  | SourceUnavailable string
  | SourceFormatError string string

text \<open>A cell of a table: a number, a string, or the marker of a missing value.\<close>

datatype scalar = IntVal int | StrVal string | NaN

text \<open>
  A row maps column names to cells; a table is its ordered column names and its
  ordered rows.
\<close>

type_synonym row = "(string \<times> scalar) list"

record dataframe =
  columns :: "string list"
  rows :: "row list"

text \<open>
  The value threaded through a pipeline: \<^verbatim>\<open>None\<close> (what \<^verbatim>\<open>Pipeline.run\<close> hands to the
  first step) or a table.
\<close>

datatype pyval = PyNone | Table dataframe

text \<open>
  The arguments a caller hands to \<^verbatim>\<open>StrategyFactory.create\<close>: strings (a file path, a
  column name) and callables (the condition). A callable takes a cell and returns a
  truth value or raises; it is a function of the cell alone and has no effect on the
  world. Python checks no types at construction, so a step stores whatever it was
  given.
\<close>

datatype arg = StrArg string | FnArg "scalar \<Rightarrow> exn + bool"

text \<open>What a path holds, as \<^verbatim>\<open>pd.read_csv\<close> finds it.\<close>

datatype source = Unreadable | Malformed string | Readable dataframe

text \<open>
  A line written by \<^verbatim>\<open>print\<close>: a literal, or an f-string made of a literal and one
  formatted value.
\<close>

datatype printed = Text string | Formatted string arg

datatype strategy_cls = AnalysisStrategy | AnalysisOneStrategy

text \<open>
  The state outside the objects: the class attribute \<^verbatim>\<open>StrategyFactory._registry\<close>,
  standard output, and the file system.

  The last field is what pandas returns for a filter whose column is a callable or
  whose condition is a string. pandas gives both a meaning: it calls a callable column
  with the table and takes the result as the key, and it takes a string condition as
  the name of a method of the column. What comes of that depends on the callable and on
  the method, which the arguments of this model (a string, a function of a cell) do not
  determine, so it is a parameter: \<open>untyped w column condition_fn df\<close>.
\<close>

record world =
  registry :: "string \<rightharpoonup> strategy_cls"
  stdout :: "printed list"
  files :: "string \<Rightarrow> source"
  untyped :: "arg \<Rightarrow> arg \<Rightarrow> dataframe \<Rightarrow> exn + pyval"

definition print :: "printed \<Rightarrow> world \<Rightarrow> world" where
  "print line w = w\<lparr>stdout := stdout w @ [line]\<rparr>"

section \<open>pandas\<close>

text \<open>
  Modelled from the spec: \<^verbatim>\<open>pd.read_csv\<close> is pandas, which is not under src/. The
  source step "returns a freshly loaded Table", fails with \<open>SourceUnavailable\<close> "if the
  path does not resolve to readable data" and with \<open>SourceFormatError\<close> "if the content
  cannot be parsed into the declared tabular shape".
\<close>

definition read_csv :: "(string \<Rightarrow> source) \<Rightarrow> string \<Rightarrow> exn + dataframe" where
  "read_csv fs filepath =
     (case fs filepath of
        Unreadable \<Rightarrow> Inl (SourceUnavailable filepath)
      | Malformed detail \<Rightarrow> Inl (SourceFormatError filepath detail)
      | Readable df \<Rightarrow> Inr df)"

text \<open>The cell of a row in a column; a row without the column has a missing value.\<close>

definition cell :: "row \<Rightarrow> string \<Rightarrow> scalar" where
  "cell r c = (case map_of r c of Some v \<Rightarrow> v | None \<Rightarrow> NaN)"

text \<open>
  Modelled from the spec: \<^verbatim>\<open>data[column]\<close> is \<^verbatim>\<open>DataFrame.__getitem__\<close> of pandas,
  which is not under src/. It "fails with \<open>ColumnNotFound\<close> if the configured column is
  absent from the input Table's column set"; otherwise it is the column's cells, one
  for each row, in row order.
\<close>

definition getitem_column :: "dataframe \<Rightarrow> string \<Rightarrow> exn + scalar list" where
  "getitem_column df c =
     (if c \<in> set (columns df) then Inr (map (\<lambda>r. cell r c) (rows df))
      else Inl (ColumnNotFound c))"

text \<open>
  Modelled from the spec: \<^verbatim>\<open>Series.apply\<close> is pandas, which is not under src/. It calls
  the condition on each cell in order; the first call that raises ends it.
\<close>

fun apply_series :: "(scalar \<Rightarrow> exn + bool) \<Rightarrow> scalar list \<Rightarrow> exn + bool list" where
  "apply_series f [] = Inr []"
| "apply_series f (v # vs) =
     (case f v of
        Inl e \<Rightarrow> Inl e
      | Inr b \<Rightarrow> (case apply_series f vs of Inl e \<Rightarrow> Inl e | Inr bs \<Rightarrow> Inr (b # bs)))"

text \<open>
  Modelled from the spec: \<^verbatim>\<open>data[mask]\<close> with a boolean mask is
  \<^verbatim>\<open>DataFrame.__getitem__\<close> of pandas, which is not under src/. It is "a new Table
  containing only rows whose value in that column satisfies the Predicate", "row order
  among retained rows is preserved from the input".
\<close>

definition getitem_mask :: "dataframe \<Rightarrow> bool list \<Rightarrow> dataframe" where
  "getitem_mask df keep = df\<lparr>rows := map fst (filter snd (zip (rows df) keep))\<rparr>"

section \<open>pipeline/steps.py and pipeline/base.py\<close>

text \<open>
  \<^verbatim>\<open>ReadCSVStep(filepath)\<close> and \<^verbatim>\<open>FilterStep(column, condition_fn)\<close>: the constructors
  store their arguments.
\<close>

datatype step = ReadCSVStep arg | FilterStep arg arg

text \<open>
  \<^verbatim>\<open>FilterStep.process\<close> after its \<^verbatim>\<open>print\<close>:
  \<^verbatim>\<open>data[data[self.column].apply(self.condition_fn)]\<close>. \<^verbatim>\<open>None[...]\<close> raises
  \<open>TypeError\<close>. The inner \<^verbatim>\<open>data[self.column]\<close> is evaluated first, then \<^verbatim>\<open>apply\<close>, then
  the outer subscript. For a callable column, and for a string condition on a column
  that exists, the result is what pandas makes of them (\<open>other\<close>, the field \<open>untyped\<close>
  of the world).
\<close>

definition filter_table ::
  "(arg \<Rightarrow> arg \<Rightarrow> dataframe \<Rightarrow> exn + pyval) \<Rightarrow> arg \<Rightarrow> arg \<Rightarrow> pyval \<Rightarrow> exn + pyval" where
  "filter_table other column condition_fn data =
     (case data of
        PyNone \<Rightarrow> Inl TypeError
      | Table df \<Rightarrow>
          (case column of
             FnArg _ \<Rightarrow> other column condition_fn df
           | StrArg c \<Rightarrow>
               (case getitem_column df c of
                  Inl e \<Rightarrow> Inl e
                | Inr series \<Rightarrow>
                    (case condition_fn of
                       StrArg _ \<Rightarrow> other column condition_fn df
                     | FnArg f \<Rightarrow>
                         (case apply_series f series of
                            Inl e \<Rightarrow> Inl e
                          | Inr keep \<Rightarrow> Inr (Table (getitem_mask df keep)))))))"

text \<open>
  \<^verbatim>\<open>process(self, data)\<close> of the two steps. Each prints one line first.
  \<^verbatim>\<open>ReadCSVStep.process\<close> returns \<^verbatim>\<open>pd.read_csv(self.filepath)\<close> and never looks at
  \<^verbatim>\<open>data\<close>. For a callable in place of the path \<^verbatim>\<open>pd.read_csv\<close> raises its
  \<open>ValueError\<close> for an argument that is neither a path nor a buffer.
\<close>

fun process :: "step \<Rightarrow> pyval \<Rightarrow> world \<Rightarrow> (exn + pyval) \<times> world" where
  "process (ReadCSVStep filepath) data w =
     (let w1 = print (Formatted ''Reading CSV from: '' filepath) w
      in case filepath of
           StrArg path \<Rightarrow>
             (case read_csv (files w1) path of
                Inl e \<Rightarrow> (Inl e, w1)
              | Inr df \<Rightarrow> (Inr (Table df), w1))
         | FnArg _ \<Rightarrow>
             (Inl (ValueError
                ''Invalid file path or buffer object type: <class 'function'>''), w1))"
| "process (FilterStep column condition_fn) data w =
     (let w1 = print (Formatted ''Filtering on column: '' column) w
      in (filter_table (untyped w1) column condition_fn data, w1))"

text \<open>The line that the \<^verbatim>\<open>process\<close> of a step prints before it does anything else.\<close>

fun banner :: "step \<Rightarrow> printed" where
  "banner (ReadCSVStep filepath) = Formatted ''Reading CSV from: '' filepath"
| "banner (FilterStep column condition_fn) = Formatted ''Filtering on column: '' column"

text \<open>\<^verbatim>\<open>Pipeline\<close>: \<^verbatim>\<open>__init__\<close> sets \<^verbatim>\<open>self.steps = []\<close>, \<^verbatim>\<open>add_step\<close> appends.\<close>

record Pipeline =
  steps :: "step list"

definition Pipeline_init :: Pipeline where
  "Pipeline_init = \<lparr>steps = []\<rparr>"

definition add_step :: "Pipeline \<Rightarrow> step \<Rightarrow> Pipeline" where
  "add_step p s = p\<lparr>steps := steps p @ [s]\<rparr>"

text \<open>
  The loop of \<^verbatim>\<open>Pipeline.run\<close>: \<^verbatim>\<open>for step in self.steps: data = step.process(data)\<close>.
  An exception leaves the loop and the function.
\<close>

fun run_steps :: "step list \<Rightarrow> pyval \<Rightarrow> world \<Rightarrow> (exn + pyval) \<times> world" where
  "run_steps [] data w = (Inr data, w)"
| "run_steps (s # ss) data w =
     (case process s data w of
        (Inl e, w') \<Rightarrow> (Inl e, w')
      | (Inr data', w') \<Rightarrow> run_steps ss data' w')"

definition run :: "Pipeline \<Rightarrow> world \<Rightarrow> (exn + pyval) \<times> world" where
  "run p w = run_steps (steps p) PyNone w"

section \<open>strategies/analysis_one.py and factory/strategy_factory.py\<close>

text \<open>
  A call \<^verbatim>\<open>f(*args, **kwargs)\<close> of a function whose parameters after \<^verbatim>\<open>self\<close> are
  \<open>params\<close>, none with a default: the positional arguments fill the first parameters,
  the keyword arguments the rest by name. Too many positional arguments, a keyword that
  is no parameter or names one already filled, and a parameter left unfilled are each a
  \<open>TypeError\<close>. The result is the arguments in parameter order.
\<close>

definition bind_args :: "string list \<Rightarrow> arg list \<Rightarrow> (string \<times> arg) list \<Rightarrow> exn + arg list" where
  "bind_args params args kwargs =
     (let filled = take (length args) params;
          rest = drop (length args) params
      in if length params < length args then Inl TypeError
         else if list_ex (\<lambda>k. k \<in> set filled \<or> k \<notin> set params) (map fst kwargs)
           then Inl TypeError
         else if list_ex (\<lambda>p. map_of kwargs p = None) rest then Inl TypeError
         else Inr (args @ List.map_filter (map_of kwargs) rest))"

text \<open>
  An instance of a strategy class. \<^verbatim>\<open>AnalysisStrategy\<close> is abstract and has no
  instances; an \<^verbatim>\<open>AnalysisOneStrategy\<close> holds its pipeline.
\<close>

datatype strategy = AnalysisOneStrategy_object Pipeline

fun class_of :: "strategy \<Rightarrow> strategy_cls" where
  "class_of (AnalysisOneStrategy_object _) = AnalysisOneStrategy"

fun pipeline :: "strategy \<Rightarrow> Pipeline" where
  "pipeline (AnalysisOneStrategy_object p) = p"

text \<open>
  \<^verbatim>\<open>AnalysisOneStrategy.__init__(self, filepath, column, condition_fn)\<close>: a new
  pipeline with a \<^verbatim>\<open>ReadCSVStep\<close> and a \<^verbatim>\<open>FilterStep\<close>.
\<close>

definition AnalysisOneStrategy_init :: "arg \<Rightarrow> arg \<Rightarrow> arg \<Rightarrow> strategy" where
  "AnalysisOneStrategy_init filepath column condition_fn =
     AnalysisOneStrategy_object
       (add_step (add_step Pipeline_init (ReadCSVStep filepath))
          (FilterStep column condition_fn))"

text \<open>
  \<^verbatim>\<open>strategy_cls(*args, **kwargs)\<close>: calling a class. The abstract base class cannot be
  instantiated; \<^verbatim>\<open>AnalysisOneStrategy\<close> binds the arguments to the parameters of its
  \<^verbatim>\<open>__init__\<close>.
\<close>

fun instantiate :: "strategy_cls \<Rightarrow> arg list \<Rightarrow> (string \<times> arg) list \<Rightarrow> exn + strategy" where
  "instantiate AnalysisStrategy args kwargs = Inl TypeError"
| "instantiate AnalysisOneStrategy args kwargs =
     (case bind_args [''filepath'', ''column'', ''condition_fn''] args kwargs of
        Inl e \<Rightarrow> Inl e
      | Inr [filepath, column, condition_fn] \<Rightarrow>
          Inr (AnalysisOneStrategy_init filepath column condition_fn)
      | Inr _ \<Rightarrow> Inl TypeError)"

text \<open>
  \<^verbatim>\<open>AnalysisOneStrategy.execute\<close>: one \<^verbatim>\<open>print\<close>, then \<^verbatim>\<open>self.pipeline.run()\<close>.
\<close>

fun execute :: "strategy \<Rightarrow> world \<Rightarrow> (exn + pyval) \<times> world" where
  "execute (AnalysisOneStrategy_object p) w =
     run p (print (Text ''Running AnalysisOneStrategy...'') w)"

text \<open>
  \<^verbatim>\<open>StrategyFactory.register(name)(strategy_cls)\<close>: the decorator stores the class under
  the name and returns the class.
\<close>

definition register :: "string \<Rightarrow> strategy_cls \<Rightarrow> world \<Rightarrow> strategy_cls \<times> world" where
  "register name strategy_cls w =
     (strategy_cls, w\<lparr>registry := (registry w)(name \<mapsto> strategy_cls)\<rparr>)"

text \<open>
  The parameters of \<^verbatim>\<open>create(cls, name, *args, **kwargs)\<close> are \<^verbatim>\<open>cls\<close>, filled by the
  class method, and \<^verbatim>\<open>name\<close>, filled by the first positional argument. A keyword
  argument of the call with one of these two names gives the parameter a second value:
  the call raises \<open>TypeError\<close> before the body of \<^verbatim>\<open>create\<close> runs.
\<close>

definition own_parameter :: "(string \<times> arg) list \<Rightarrow> bool" where
  "own_parameter kwargs = list_ex (\<lambda>k. k = ''cls'' \<or> k = ''name'') (map fst kwargs)"

text \<open>
  \<^verbatim>\<open>StrategyFactory.create(name, *args, **kwargs)\<close>: \<open>name\<close> is the first positional
  argument of the call, \<open>args\<close> the positional arguments after it and \<open>kwargs\<close> its
  keyword arguments. \<^verbatim>\<open>_registry.get(name)\<close> is \<^verbatim>\<open>None\<close> for a missing name, and a class
  object is never falsy, so \<^verbatim>\<open>not strategy_cls\<close> holds exactly when the name is missing.
\<close>

definition create ::
  "string \<Rightarrow> arg list \<Rightarrow> (string \<times> arg) list \<Rightarrow> world \<Rightarrow> (exn + strategy) \<times> world" where
  "create name args kwargs w =
     (if own_parameter kwargs then (Inl TypeError, w)
      else case registry w name of
             None \<Rightarrow> (Inl (ValueError (''Unknown strategy: '' @ name)), w)
           | Some strategy_cls \<Rightarrow> (instantiate strategy_cls args kwargs, w))"

section \<open>main.py\<close>

text \<open>\<^verbatim>\<open>age_greater_than_30(x)\<close> is \<^verbatim>\<open>x > 30\<close>; a string does not compare with a number.\<close>

fun age_greater_than_30 :: "scalar \<Rightarrow> exn + bool" where
  "age_greater_than_30 (IntVal x) = Inr (30 < x)"
| "age_greater_than_30 (StrVal s) = Inl TypeError"
| "age_greater_than_30 NaN = Inr False"

text \<open>The table that \<^verbatim>\<open>main\<close> writes to \<^verbatim>\<open>data.csv\<close>.\<close>

definition data_csv :: dataframe where
  "data_csv =
     \<lparr>columns = [''name'', ''age'', ''salary''],
      rows = [[(''name'', StrVal ''Alice''), (''age'', IntVal 25), (''salary'', IntVal 50000)],
              [(''name'', StrVal ''Bob''), (''age'', IntVal 35), (''salary'', IntVal 60000)],
              [(''name'', StrVal ''Carol''), (''age'', IntVal 45), (''salary'', IntVal 70000)]]\<rparr>"

text \<open>
  The world when \<^verbatim>\<open>main\<close> calls \<^verbatim>\<open>create\<close>: the import of
  \<^verbatim>\<open>strategies.analysis_one\<close> has run its \<^verbatim>\<open>register\<close> decorator on an empty registry,
  and \<^verbatim>\<open>data.csv\<close> is the only file. \<^verbatim>\<open>main\<close> hands a string as the column and a
  function as the condition, so nothing in its run reads \<open>untyped\<close>; the field is set to
  a constant.
\<close>

definition startup :: world where
  "startup =
     snd (register ''analysis_one'' AnalysisOneStrategy
       \<lparr>registry = Map.empty, stdout = [],
        files = (\<lambda>path. if path = ''data.csv'' then Readable data_csv else Unreadable),
        untyped = (\<lambda>column condition_fn df. Inl TypeError)\<rparr>)"

section \<open>Auxiliary facts\<close>

lemma startup_simps:
  "registry startup = [''analysis_one'' \<mapsto> AnalysisOneStrategy]"
  "stdout startup = []"
  "files startup = (\<lambda>path. if path = ''data.csv'' then Readable data_csv else Unreadable)"
  "untyped startup = (\<lambda>column condition_fn df. Inl TypeError)"
  by (simp_all add: startup_def register_def)

lemma apply_series_agree:
  "\<forall>v \<in> set vs. f v = Inr (p v) \<Longrightarrow> apply_series f vs = Inr (map p vs)"
  by (induction vs) auto

lemma keep_rows_filter:
  "map fst (filter snd (zip xs (map g xs))) = filter g xs"
  by (induction xs) auto

lemma filter_table_agree:
  assumes "c \<in> set (columns T)"
    and "\<forall>r \<in> set (rows T). f (cell r c) = Inr (p (cell r c))"
  shows "filter_table other (StrArg c) (FnArg f) (Table T) =
           Inr (Table (T\<lparr>rows := filter (\<lambda>r. p (cell r c)) (rows T)\<rparr>))"
proof -
  have "apply_series f (map (\<lambda>r. cell r c) (rows T)) = Inr (map (p \<circ> (\<lambda>r. cell r c)) (rows T))"
    using assms(2) apply_series_agree [of "map (\<lambda>r. cell r c) (rows T)" f p] by simp
  moreover have "map fst (filter snd (zip (rows T) (map (p \<circ> (\<lambda>r. cell r c)) (rows T))))
      = filter (p \<circ> (\<lambda>r. cell r c)) (rows T)"
    by (rule keep_rows_filter)
  ultimately show ?thesis
    using assms(1) by (simp add: filter_table_def getitem_column_def getitem_mask_def comp_def)
qed

lemma registry_print: "registry (print l w) = registry w"
  by (simp add: print_def)

lemma process_world: "snd (process s d w) = print (banner s) w"
  by (cases s) (auto simp: Let_def split: arg.splits sum.splits)

lemma run_steps_registry: "registry (snd (run_steps ss d w)) = registry w"
proof (induction ss arbitrary: d w)
  case Nil
  then show ?case by simp
next
  case (Cons s ss)
  obtain r w' where pr: "process s d w = (r, w')" by (cases "process s d w")
  then have "w' = print (banner s) w" using process_world [of s d w] by simp
  then have reg: "registry w' = registry w" by (simp add: registry_print)
  show ?case
  proof (cases r)
    case (Inl e)
    then show ?thesis using pr reg by simp
  next
    case (Inr d')
    then show ?thesis using pr reg Cons.IH [of d' w'] by simp
  qed
qed

lemma run_steps_snoc:
  "run_steps (ss @ [s]) d w =
     (case run_steps ss d w of (Inl e, w') \<Rightarrow> (Inl e, w') | (Inr d', w') \<Rightarrow> process s d' w')"
proof (induction ss arbitrary: d w)
  case Nil
  show ?case by (cases "process s d w") (auto split: sum.splits)
next
  case (Cons a ss)
  show ?case
    by (cases "process a d w") (auto split: sum.splits simp: Cons.IH)
qed

lemma run_steps_stdout_ok:
  "run_steps ss d w = (Inr d', w') \<Longrightarrow> stdout w' = stdout w @ map banner ss"
proof (induction ss arbitrary: d w)
  case Nil
  then show ?case by simp
next
  case (Cons s ss)
  obtain r w1 where pr: "process s d w = (r, w1)" by (cases "process s d w")
  then have w1: "w1 = print (banner s) w" using process_world [of s d w] by simp
  from Cons.prems pr obtain d1 where r: "r = Inr d1" and rest: "run_steps ss d1 w1 = (Inr d', w')"
    by (cases r) auto
  from Cons.IH [OF rest] w1 show ?case by (simp add: print_def)
qed

lemma run_steps_stdout_err:
  "run_steps ss d w = (Inl e, w') \<Longrightarrow>
     \<exists>k < length ss. stdout w' = stdout w @ map banner (take (Suc k) ss)"
proof (induction ss arbitrary: d w)
  case Nil
  then show ?case by simp
next
  case (Cons s ss)
  obtain r w1 where pr: "process s d w = (r, w1)" by (cases "process s d w")
  then have w1: "w1 = print (banner s) w" using process_world [of s d w] by simp
  show ?case
  proof (cases r)
    case (Inl e')
    with Cons.prems pr have "w' = w1" by simp
    with w1 have "stdout w' = stdout w @ map banner (take (Suc 0) (s # ss))"
      by (simp add: print_def)
    then show ?thesis by blast
  next
    case (Inr d1)
    with Cons.prems pr have "run_steps ss d1 w1 = (Inl e, w')" by simp
    from Cons.IH [OF this] obtain k where k: "k < length ss"
      and out: "stdout w' = stdout w1 @ map banner (take (Suc k) ss)" by blast
    from out w1 have "stdout w' = stdout w @ map banner (take (Suc (Suc k)) (s # ss))"
      by (simp add: print_def)
    with k show ?thesis by (intro exI [of _ "Suc k"]) simp
  qed
qed

lemma bind_args_positional:
  "length args = length params \<Longrightarrow> bind_args params args [] = Inr args"
  by (simp add: bind_args_def Let_def)

lemma instantiate_class: "instantiate cls args kwargs = Inr obj \<Longrightarrow> class_of obj = cls"
  by (cases cls; cases obj) auto

lemma own_parameter_not_bound:
  assumes "own_parameter kwargs"
  shows "bind_args [''filepath'', ''column'', ''condition_fn''] args kwargs = Inl TypeError"
proof -
  from assms obtain k where k: "k \<in> set (map fst kwargs)" and own: "k = ''cls'' \<or> k = ''name''"
    unfolding own_parameter_def list_ex_iff by blast
  from own have "k \<notin> set [''filepath'', ''column'', ''condition_fn'']" by auto
  with k have "list_ex (\<lambda>k. k \<in> set (take (length args) [''filepath'', ''column'', ''condition_fn''])
      \<or> k \<notin> set [''filepath'', ''column'', ''condition_fn'']) (map fst kwargs)"
    unfolding list_ex_iff by blast
  then show ?thesis by (simp add: bind_args_def Let_def)
qed

lemma own_parameter_instantiate:
  "own_parameter kwargs \<Longrightarrow> instantiate cls args kwargs = Inl TypeError"
  by (cases cls) (simp_all add: own_parameter_not_bound)

lemma own_parameter_Nil: "\<not> own_parameter []"
  by (simp add: own_parameter_def)

lemma create_calls_class:
  "registry w n = Some cls \<Longrightarrow> create n args kwargs w = (instantiate cls args kwargs, w)"
  by (simp add: create_def own_parameter_instantiate del: instantiate.simps)

lemma instantiate_positional:
  "instantiate AnalysisOneStrategy [filepath, column, condition_fn] [] =
     Inr (AnalysisOneStrategy_object
            \<lparr>steps = [ReadCSVStep filepath, FilterStep column condition_fn]\<rparr>)"
  by (simp add: bind_args_positional AnalysisOneStrategy_init_def add_step_def Pipeline_init_def)

section \<open>The filter step\<close>

text \<open>
  Claim C1. For a table \<open>T\<close> that has the column \<open>c\<close> and a condition \<open>f\<close> that returns
  the truth value \<open>p v\<close> on every cell \<open>v\<close> of that column (it is total there),
  \<^verbatim>\<open>FilterStep(c, f).process(T)\<close> returns a table whose rows are exactly the rows of \<open>T\<close>
  that satisfy \<open>p\<close> in column \<open>c\<close>: every returned row satisfies \<open>p\<close>, and the returned
  rows are a subsequence of the rows of \<open>T\<close>. On the table of Alice (25), Bob (35) and
  Carol (45) with the column \<^verbatim>\<open>age\<close> and the condition \<^verbatim>\<open>age > 30\<close> the result is Bob and
  Carol, in that order.
\<close>

theorem FilterStep_process_filters:
  "(c \<in> set (columns T) \<and> (\<forall>r \<in> set (rows T). f (cell r c) = Inr (p (cell r c))) \<longrightarrow>
      (\<exists>T'. process (FilterStep (StrArg c) (FnArg f)) (Table T) w =
               (Inr (Table T'), print (Formatted ''Filtering on column: '' (StrArg c)) w)
         \<and> rows T' = filter (\<lambda>r. p (cell r c)) (rows T)
         \<and> (\<forall>r \<in> set (rows T'). p (cell r c))
         \<and> subseq (rows T') (rows T)))
   \<and> process (FilterStep (StrArg ''age'') (FnArg age_greater_than_30))
        (Table \<lparr>columns = [''name'', ''age''],
                rows = [[(''name'', StrVal ''Alice''), (''age'', IntVal 25)],
                        [(''name'', StrVal ''Bob''), (''age'', IntVal 35)],
                        [(''name'', StrVal ''Carol''), (''age'', IntVal 45)]]\<rparr>) w =
       (Inr (Table \<lparr>columns = [''name'', ''age''],
                rows = [[(''name'', StrVal ''Bob''), (''age'', IntVal 35)],
                        [(''name'', StrVal ''Carol''), (''age'', IntVal 45)]]\<rparr>),
        print (Formatted ''Filtering on column: '' (StrArg ''age'')) w)"
proof (intro conjI impI)
  assume h: "c \<in> set (columns T) \<and> (\<forall>r \<in> set (rows T). f (cell r c) = Inr (p (cell r c)))"
  let ?T' = "T\<lparr>rows := filter (\<lambda>r. p (cell r c)) (rows T)\<rparr>"
  have "process (FilterStep (StrArg c) (FnArg f)) (Table T) w =
          (Inr (Table ?T'), print (Formatted ''Filtering on column: '' (StrArg c)) w)"
    using h filter_table_agree [of c T f p] by simp
  moreover have "rows ?T' = filter (\<lambda>r. p (cell r c)) (rows T)" by simp
  moreover have "\<forall>r \<in> set (rows ?T'). p (cell r c)" by simp
  moreover have "subseq (rows ?T') (rows T)" by simp
  ultimately show "\<exists>T'. process (FilterStep (StrArg c) (FnArg f)) (Table T) w =
               (Inr (Table T'), print (Formatted ''Filtering on column: '' (StrArg c)) w)
         \<and> rows T' = filter (\<lambda>r. p (cell r c)) (rows T)
         \<and> (\<forall>r \<in> set (rows T'). p (cell r c))
         \<and> subseq (rows T') (rows T)"
    by blast
next
  show "process (FilterStep (StrArg ''age'') (FnArg age_greater_than_30))
        (Table \<lparr>columns = [''name'', ''age''],
                rows = [[(''name'', StrVal ''Alice''), (''age'', IntVal 25)],
                        [(''name'', StrVal ''Bob''), (''age'', IntVal 35)],
                        [(''name'', StrVal ''Carol''), (''age'', IntVal 45)]]\<rparr>) w =
       (Inr (Table \<lparr>columns = [''name'', ''age''],
                rows = [[(''name'', StrVal ''Bob''), (''age'', IntVal 35)],
                        [(''name'', StrVal ''Carol''), (''age'', IntVal 45)]]\<rparr>),
        print (Formatted ''Filtering on column: '' (StrArg ''age'')) w)"
    by (simp add: filter_table_def getitem_column_def getitem_mask_def cell_def)
qed

theorem FilterStep_process_filters_witness:
  "''age'' \<in> set (columns data_csv)
   \<and> list_all (\<lambda>r. age_greater_than_30 (cell r ''age'') =
         Inr (case cell r ''age'' of IntVal x \<Rightarrow> 30 < x | _ \<Rightarrow> False)) (rows data_csv)
   \<and> (\<exists>T'. process (FilterStep (StrArg ''age'') (FnArg age_greater_than_30)) (Table data_csv) startup =
             (Inr (Table T'), print (Formatted ''Filtering on column: '' (StrArg ''age'')) startup)
        \<and> rows T' =
             [[(''name'', StrVal ''Bob''), (''age'', IntVal 35), (''salary'', IntVal 60000)],
              [(''name'', StrVal ''Carol''), (''age'', IntVal 45), (''salary'', IntVal 70000)]])"
proof -
  have h1: "''age'' \<in> set (columns data_csv)" by (simp add: data_csv_def)
  have h2: "\<forall>r \<in> set (rows data_csv). age_greater_than_30 (cell r ''age'') =
         Inr (case cell r ''age'' of IntVal x \<Rightarrow> 30 < x | _ \<Rightarrow> False)"
    by (simp add: data_csv_def cell_def)
  have flt: "filter (\<lambda>r. case cell r ''age'' of IntVal x \<Rightarrow> 30 < x | _ \<Rightarrow> False) (rows data_csv) =
             [[(''name'', StrVal ''Bob''), (''age'', IntVal 35), (''salary'', IntVal 60000)],
              [(''name'', StrVal ''Carol''), (''age'', IntVal 45), (''salary'', IntVal 70000)]]"
    by (simp add: data_csv_def cell_def)
  from FilterStep_process_filters [of "''age''" data_csv age_greater_than_30
      "\<lambda>v. case v of IntVal x \<Rightarrow> 30 < x | _ \<Rightarrow> False" startup] h1 h2
  obtain T' where "process (FilterStep (StrArg ''age'') (FnArg age_greater_than_30)) (Table data_csv) startup =
             (Inr (Table T'), print (Formatted ''Filtering on column: '' (StrArg ''age'')) startup)"
    and "rows T' = filter (\<lambda>r. case cell r ''age'' of IntVal x \<Rightarrow> 30 < x | _ \<Rightarrow> False) (rows data_csv)"
    by blast
  with flt h1 h2 show ?thesis by (auto simp: list_all_iff)
qed

text \<open>
  Claim C6. For a table \<open>T\<close> that does not have the column \<open>c\<close>,
  \<^verbatim>\<open>FilterStep(c, condition_fn).process(T)\<close> fails with \<open>ColumnNotFound c\<close>, whatever the
  condition is: the result is the exception and no table, and the only effect is the
  line printed before the lookup.
\<close>

theorem FilterStep_column_absent:
  "c \<notin> set (columns T) \<Longrightarrow>
     process (FilterStep (StrArg c) condition_fn) (Table T) w =
       (Inl (ColumnNotFound c), print (Formatted ''Filtering on column: '' (StrArg c)) w)"
  by (simp add: filter_table_def getitem_column_def)

theorem FilterStep_column_absent_witness:
  "''height'' \<notin> set (columns data_csv)
   \<and> process (FilterStep (StrArg ''height'') (FnArg age_greater_than_30)) (Table data_csv) startup =
       (Inl (ColumnNotFound ''height''),
        print (Formatted ''Filtering on column: '' (StrArg ''height'')) startup)"
proof -
  have h: "''height'' \<notin> set (columns data_csv)" by (simp add: data_csv_def)
  show ?thesis
    using h FilterStep_column_absent [OF h, of "FnArg age_greater_than_30" startup] by simp
qed

section \<open>The source step\<close>

text \<open>
  Claim C7. When the configured path does not resolve to readable data,
  \<^verbatim>\<open>ReadCSVStep(path).process\<close> fails with \<open>SourceUnavailable path\<close>; when the data at
  the path cannot be parsed, it fails with \<open>SourceFormatError\<close>. The step prints its
  line and lets the error of \<^verbatim>\<open>pd.read_csv\<close> through unchanged.
\<close>

theorem ReadCSVStep_errors:
  "(files w path = Unreadable \<longrightarrow>
      process (ReadCSVStep (StrArg path)) data w =
        (Inl (SourceUnavailable path), print (Formatted ''Reading CSV from: '' (StrArg path)) w))
   \<and> (files w path = Malformed detail \<longrightarrow>
      process (ReadCSVStep (StrArg path)) data w =
        (Inl (SourceFormatError path detail),
         print (Formatted ''Reading CSV from: '' (StrArg path)) w))"
  by (simp add: read_csv_def print_def)

theorem ReadCSVStep_errors_witness:
  "files startup ''nonexistent.csv'' = Unreadable
   \<and> process (ReadCSVStep (StrArg ''nonexistent.csv'')) PyNone startup =
       (Inl (SourceUnavailable ''nonexistent.csv''),
        print (Formatted ''Reading CSV from: '' (StrArg ''nonexistent.csv'')) startup)
   \<and> files (startup\<lparr>files := (files startup)(''data.csv'' := Malformed ''unbalanced quote'')\<rparr>)
        ''data.csv'' = Malformed ''unbalanced quote''
   \<and> process (ReadCSVStep (StrArg ''data.csv'')) PyNone
        (startup\<lparr>files := (files startup)(''data.csv'' := Malformed ''unbalanced quote'')\<rparr>) =
       (Inl (SourceFormatError ''data.csv'' ''unbalanced quote''),
        print (Formatted ''Reading CSV from: '' (StrArg ''data.csv''))
          (startup\<lparr>files := (files startup)(''data.csv'' := Malformed ''unbalanced quote'')\<rparr>))"
proof -
  have h1: "files startup ''nonexistent.csv'' = Unreadable" by (simp add: startup_simps)
  have h2: "files (startup\<lparr>files := (files startup)(''data.csv'' := Malformed ''unbalanced quote'')\<rparr>)
        ''data.csv'' = Malformed ''unbalanced quote''" by simp
  show ?thesis
    using h1 h2
      ReadCSVStep_errors [of startup "''nonexistent.csv''" PyNone]
      ReadCSVStep_errors [of "startup\<lparr>files := (files startup)(''data.csv'' := Malformed ''unbalanced quote'')\<rparr>"
        "''data.csv''" PyNone "''unbalanced quote''"]
    by blast
qed

text \<open>
  Claim C9. The result of \<^verbatim>\<open>ReadCSVStep.process\<close> does not depend on its input: for
  any two inputs \<open>x\<close> and \<open>y\<close> (\<^verbatim>\<open>None\<close> included) the two calls agree, in the same world
  and one after the other, and for a path the result is what \<^verbatim>\<open>pd.read_csv\<close> loads
  from it.
\<close>

theorem ReadCSVStep_ignores_input:
  "process (ReadCSVStep filepath) x w = process (ReadCSVStep filepath) y w
   \<and> fst (process (ReadCSVStep filepath) y (snd (process (ReadCSVStep filepath) x w))) =
       fst (process (ReadCSVStep filepath) x w)
   \<and> fst (process (ReadCSVStep (StrArg path)) x w) =
       (case read_csv (files w) path of Inl e \<Rightarrow> Inl e | Inr df \<Rightarrow> Inr (Table df))"
  by (auto simp: print_def Let_def split: arg.splits sum.splits)

section \<open>The pipeline\<close>

text \<open>
  Claim C5. \<^verbatim>\<open>run()\<close> of a pipeline to which no step has been added returns \<^verbatim>\<open>None\<close>,
  the value it would hand to a first step, and has no effect.
\<close>

theorem run_empty: "run Pipeline_init w = (Inr PyNone, w)"
  by (simp add: run_def Pipeline_init_def)

text \<open>
  Claim C4, as stated, says that \<^verbatim>\<open>run()\<close> invokes every step exactly once and returns
  the output of the last step, for every sequence of steps. It does not when a step
  raises: a \<^verbatim>\<open>ReadCSVStep\<close> on a missing file, or a \<^verbatim>\<open>FilterStep\<close> placed first (it
  subscripts \<^verbatim>\<open>None\<close>), ends the run with the exception, and the step after it is
  never invoked: only the line of the failing step is printed.
\<close>

theorem run_aborts_counterexample:
  "run (add_step (add_step Pipeline_init (ReadCSVStep (StrArg ''missing.csv'')))
          (FilterStep (StrArg ''age'') (FnArg age_greater_than_30))) startup =
     (Inl (SourceUnavailable ''missing.csv''),
      print (Formatted ''Reading CSV from: '' (StrArg ''missing.csv'')) startup)
   \<and> run (add_step (add_step Pipeline_init (FilterStep (StrArg ''age'') (FnArg age_greater_than_30)))
          (ReadCSVStep (StrArg ''data.csv''))) startup =
     (Inl TypeError, print (Formatted ''Filtering on column: '' (StrArg ''age'')) startup)"
  by (simp add: run_def add_step_def Pipeline_init_def read_csv_def print_def startup_simps
      filter_table_def)

text \<open>
  Claim C4, amended. \<^verbatim>\<open>run()\<close> invokes the steps in the order in which \<^verbatim>\<open>add_step\<close>
  added them: the empty pipeline returns \<^verbatim>\<open>None\<close>; the first step receives \<^verbatim>\<open>None\<close>; the
  run of a pipeline with one more step is the run of the pipeline before it, followed,
  when that run returned, by one call of the new step's \<^verbatim>\<open>process\<close> on its output,
  whose result is the result of the run. When every step returns, each
  step was invoked exactly once, in order: standard output grew by the lines of all
  steps in order. When a step raises, the run ends with that exception and no later
  step is invoked: standard output grew by the lines of the steps up to the failing
  one.
\<close>

theorem run_invokes_steps_in_order:
  "run Pipeline_init w = (Inr PyNone, w)
   \<and> run (add_step Pipeline_init s) w = process s PyNone w
   \<and> run (add_step p s) w =
       (case run p w of (Inl e, w') \<Rightarrow> (Inl e, w') | (Inr d, w') \<Rightarrow> process s d w')
   \<and> (\<forall>d w'. run p w = (Inr d, w') \<longrightarrow> stdout w' = stdout w @ map banner (steps p))
   \<and> (\<forall>e w'. run p w = (Inl e, w') \<longrightarrow>
        (\<exists>k < length (steps p). stdout w' = stdout w @ map banner (take (Suc k) (steps p))))"
proof (intro conjI allI impI)
  show "run Pipeline_init w = (Inr PyNone, w)"
    by (simp add: run_def Pipeline_init_def)
  show "run (add_step Pipeline_init s) w = process s PyNone w"
    by (cases "process s PyNone w")
      (auto simp: run_def add_step_def Pipeline_init_def split: sum.splits)
  show "run (add_step p s) w =
       (case run p w of (Inl e, w') \<Rightarrow> (Inl e, w') | (Inr d, w') \<Rightarrow> process s d w')"
    by (simp add: run_def add_step_def run_steps_snoc)
  show "stdout w' = stdout w @ map banner (steps p)" if "run p w = (Inr d, w')" for d w'
    using that run_steps_stdout_ok [of "steps p" PyNone w d w'] by (simp add: run_def)
  show "\<exists>k < length (steps p). stdout w' = stdout w @ map banner (take (Suc k) (steps p))"
    if "run p w = (Inl e, w')" for e w'
    using that run_steps_stdout_err [of "steps p" PyNone w e w'] by (simp add: run_def)
qed

theorem run_invokes_steps_in_order_witness:
  "run (add_step (add_step Pipeline_init (ReadCSVStep (StrArg ''data.csv'')))
          (FilterStep (StrArg ''age'') (FnArg age_greater_than_30))) startup =
     (Inr (Table (data_csv\<lparr>rows :=
        [[(''name'', StrVal ''Bob''), (''age'', IntVal 35), (''salary'', IntVal 60000)],
         [(''name'', StrVal ''Carol''), (''age'', IntVal 45), (''salary'', IntVal 70000)]]\<rparr>)),
      startup\<lparr>stdout := [Formatted ''Reading CSV from: '' (StrArg ''data.csv''),
                          Formatted ''Filtering on column: '' (StrArg ''age'')]\<rparr>)"
  using run_invokes_steps_in_order [where w = startup
      and p = "add_step Pipeline_init (ReadCSVStep (StrArg ''data.csv''))"
      and s = "FilterStep (StrArg ''age'') (FnArg age_greater_than_30)"]
    run_invokes_steps_in_order [where w = startup and p = Pipeline_init
      and s = "ReadCSVStep (StrArg ''data.csv'')"]
  by (simp add: read_csv_def print_def startup_simps filter_table_def getitem_column_def
      getitem_mask_def cell_def data_csv_def)

section \<open>The registry\<close>

text \<open>
  Claim C2, as stated, says that \<^verbatim>\<open>create(n, ...)\<close> returns an instance of the class
  registered under \<open>n\<close> for every argument list. It does not: in the world in which
  \<^verbatim>\<open>main\<close> runs, \<^verbatim>\<open>analysis_one\<close> is registered, and \<^verbatim>\<open>create("analysis_one")\<close> with no
  further argument raises \<open>TypeError\<close>, because \<^verbatim>\<open>AnalysisOneStrategy.__init__\<close> has three
  required parameters.
\<close>

theorem create_wrong_arity_counterexample:
  "registry startup ''analysis_one'' = Some AnalysisOneStrategy
   \<and> create ''analysis_one'' [] [] startup = (Inl TypeError, startup)"
  by (simp add: create_def own_parameter_def startup_simps bind_args_def)

text \<open>
  Claim C2, amended. For a name \<open>n\<close> registered to the class \<open>cls\<close> and every argument
  list, \<^verbatim>\<open>create(n, *args, **kwargs)\<close> returns exactly what the call
  \<^verbatim>\<open>cls(*args, **kwargs)\<close> returns and changes nothing: an instance it returns is a new
  instance of exactly \<open>cls\<close>, an exception of the call (the arguments do not bind to the
  constructor's parameters, the class is abstract) is the exception of \<^verbatim>\<open>create\<close>. For
  \<^verbatim>\<open>AnalysisOneStrategy\<close> and the three positional arguments \<^verbatim>\<open>filepath\<close>, \<^verbatim>\<open>column\<close>,
  \<^verbatim>\<open>condition_fn\<close> the result is the instance whose pipeline is a \<^verbatim>\<open>ReadCSVStep\<close> followed
  by a \<^verbatim>\<open>FilterStep\<close>.
\<close>

theorem create_registered:
  "registry w n = Some cls \<Longrightarrow>
     create n args kwargs w = (instantiate cls args kwargs, w)
     \<and> (\<forall>obj. instantiate cls args kwargs = Inr obj \<longrightarrow> class_of obj = cls)
     \<and> (cls = AnalysisOneStrategy \<longrightarrow>
          create n [filepath, column, condition_fn] [] w =
            (Inr (AnalysisOneStrategy_object
                    \<lparr>steps = [ReadCSVStep filepath, FilterStep column condition_fn]\<rparr>), w))"
  by (auto simp: create_calls_class instantiate_positional simp del: instantiate.simps
      dest: instantiate_class)

theorem create_registered_witness:
  "registry startup ''analysis_one'' = Some AnalysisOneStrategy
   \<and> create ''analysis_one'' [StrArg ''data.csv'', StrArg ''age'', FnArg age_greater_than_30] [] startup =
       (Inr (AnalysisOneStrategy_object
               \<lparr>steps = [ReadCSVStep (StrArg ''data.csv''),
                          FilterStep (StrArg ''age'') (FnArg age_greater_than_30)]\<rparr>), startup)"
proof -
  have h: "registry startup ''analysis_one'' = Some AnalysisOneStrategy"
    by (simp add: startup_simps)
  show ?thesis
    using h create_registered [OF h, of "[]" "[]" "StrArg ''data.csv''" "StrArg ''age''"
        "FnArg age_greater_than_30"]
    by simp
qed

text \<open>
  Claim C3, as stated, says that \<^verbatim>\<open>create(n, ...)\<close> fails with the unknown-strategy error
  for every name \<open>n\<close> that is not registered, whatever the other arguments are. It does
  not when a keyword argument is called \<^verbatim>\<open>name\<close> or \<^verbatim>\<open>cls\<close>:
  \<^verbatim>\<open>create("nonexistent", name="x")\<close> gives the parameter \<^verbatim>\<open>name\<close> two values, and the call
  raises \<open>TypeError\<close> before the registry is read.
\<close>

theorem create_own_parameter_counterexample:
  "registry startup ''nonexistent'' = None
   \<and> create ''nonexistent'' [] [(''name'', StrArg ''x'')] startup = (Inl TypeError, startup)"
  by (simp add: create_def own_parameter_def startup_simps)

text \<open>
  Claim C3, amended. For a name \<open>n\<close> that is not in the registry, \<^verbatim>\<open>create(n, ...)\<close> fails,
  builds no object and leaves the registry (with the rest of the world) as it was. When
  no keyword argument is called \<^verbatim>\<open>name\<close> or \<^verbatim>\<open>cls\<close>, the failure is the unknown-strategy
  error, the \<open>ValueError\<close> whose message is \<^verbatim>\<open>Unknown strategy: \<close> followed by \<open>n\<close>;
  otherwise it is the \<open>TypeError\<close> of the call. \<^verbatim>\<open>create("nonexistent")\<close> fails with the
  unknown-strategy error for \<^verbatim>\<open>nonexistent\<close>.
\<close>

theorem create_unregistered:
  "(registry w n = None \<and> \<not> own_parameter kwargs \<longrightarrow>
      create n args kwargs w = (Inl (ValueError (''Unknown strategy: '' @ n)), w))
   \<and> (registry w n = None \<and> own_parameter kwargs \<longrightarrow>
      create n args kwargs w = (Inl TypeError, w))
   \<and> (registry w n = None \<longrightarrow> (\<exists>e. create n args kwargs w = (Inl e, w)))
   \<and> create ''nonexistent'' [] [] startup =
       (Inl (ValueError ''Unknown strategy: nonexistent''), startup)"
  by (simp add: create_def own_parameter_Nil startup_simps)

theorem create_unregistered_witness:
  "registry startup ''analysis_two'' = None
   \<and> own_parameter [(''cls'', StrArg ''x'')]
   \<and> create ''analysis_two'' [StrArg ''data.csv'', StrArg ''age'', FnArg age_greater_than_30] [] startup =
       (Inl (ValueError ''Unknown strategy: analysis_two''), startup)
   \<and> create ''analysis_two'' [] [(''cls'', StrArg ''x'')] startup = (Inl TypeError, startup)"
proof -
  have h: "registry startup ''analysis_two'' = None" by (simp add: startup_simps)
  have own: "own_parameter [(''cls'', StrArg ''x'')]" by (simp add: own_parameter_def)
  show ?thesis
    using h own own_parameter_Nil
      create_unregistered [of startup "''analysis_two''" "[]"
        "[StrArg ''data.csv'', StrArg ''age'', FnArg age_greater_than_30]"]
      create_unregistered [of startup "''analysis_two''" "[(''cls'', StrArg ''x'')]" "[]"]
    by simp
qed

text \<open>
  Claim C8, as stated, says that after \<open>B\<close> is registered over \<open>A\<close> under \<open>n\<close>, every
  subsequent \<^verbatim>\<open>create(n, ...)\<close> constructs an instance of \<open>B\<close>. It does not when the call
  of \<open>B\<close> fails. With the abstract \<^verbatim>\<open>AnalysisStrategy\<close> registered over
  \<^verbatim>\<open>AnalysisOneStrategy\<close> under \<^verbatim>\<open>analysis_one\<close>, the \<^verbatim>\<open>create\<close> of \<^verbatim>\<open>main\<close> raises
  \<open>TypeError\<close>; with \<^verbatim>\<open>AnalysisOneStrategy\<close> registered over that again, \<^verbatim>\<open>create\<close> with no
  further argument raises \<open>TypeError\<close>. In neither is an instance constructed.
\<close>

theorem create_after_overwrite_counterexample:
  "registry startup ''analysis_one'' = Some AnalysisOneStrategy
   \<and> create ''analysis_one'' [StrArg ''data.csv'', StrArg ''age'', FnArg age_greater_than_30] []
        (snd (register ''analysis_one'' AnalysisStrategy startup)) =
       (Inl TypeError, snd (register ''analysis_one'' AnalysisStrategy startup))
   \<and> registry (snd (register ''analysis_one'' AnalysisStrategy startup)) ''analysis_one'' =
       Some AnalysisStrategy
   \<and> create ''analysis_one'' [] []
        (snd (register ''analysis_one'' AnalysisOneStrategy
           (snd (register ''analysis_one'' AnalysisStrategy startup)))) =
       (Inl TypeError,
        snd (register ''analysis_one'' AnalysisOneStrategy
           (snd (register ''analysis_one'' AnalysisStrategy startup))))"
  by (simp add: create_def own_parameter_def register_def startup_simps bind_args_def)

text \<open>
  Claim C8, amended. When \<open>n\<close> is registered to the class \<open>A\<close>, registering \<open>B\<close> under \<open>n\<close>
  raises nothing: it returns \<open>B\<close> and changes the world only in that the registry now
  maps \<open>n\<close> to \<open>B\<close>. Every \<^verbatim>\<open>create(n, ...)\<close> after it, in that world or in a later one
  with the same registry, calls \<open>B\<close>, the class registered last, with the arguments and
  returns what that call returns: an instance it returns is an instance of \<open>B\<close>, and a
  failure of the call is the failure of \<^verbatim>\<open>create\<close>. For \<^verbatim>\<open>AnalysisOneStrategy\<close> as \<open>B\<close>
  with its three arguments the result is the new instance.
\<close>

theorem register_overwrites:
  "registry w n = Some A \<Longrightarrow>
     (case register n B w of
        (c, w') \<Rightarrow>
          c = B
          \<and> w' = w\<lparr>registry := (registry w)(n \<mapsto> B)\<rparr>
          \<and> registry w' n = Some B
          \<and> create n args kwargs w' = (instantiate B args kwargs, w')
          \<and> (\<forall>w''. registry w'' = registry w' \<longrightarrow>
                create n args kwargs w'' = (instantiate B args kwargs, w''))
          \<and> (\<forall>obj. fst (create n args kwargs w') = Inr obj \<longrightarrow> class_of obj = B)
          \<and> (B = AnalysisOneStrategy \<longrightarrow>
                create n [filepath, column, condition_fn] [] w' =
                  (Inr (AnalysisOneStrategy_object
                          \<lparr>steps = [ReadCSVStep filepath, FilterStep column condition_fn]\<rparr>), w')))"
proof -
  let ?w' = "w\<lparr>registry := (registry w)(n \<mapsto> B)\<rparr>"
  have reg: "registry ?w' n = Some B" by simp
  have call: "create n args kwargs w'' = (instantiate B args kwargs, w'')"
    if "registry w'' = registry ?w'" for w'' args kwargs
    using that reg create_calls_class [of w'' n B args kwargs] by simp
  have cls: "class_of obj = B" if "fst (create n args kwargs ?w') = Inr obj" for obj
    using that call [of ?w' args kwargs] instantiate_class [of B args kwargs obj] by simp
  have three: "create n [filepath, column, condition_fn] [] ?w' =
      (Inr (AnalysisOneStrategy_object
              \<lparr>steps = [ReadCSVStep filepath, FilterStep column condition_fn]\<rparr>), ?w')"
    if "B = AnalysisOneStrategy"
    using that call [of ?w' "[filepath, column, condition_fn]" "[]"]
    by (simp add: instantiate_positional del: instantiate.simps)
  show ?thesis
    unfolding register_def
    using reg call cls three by (simp del: instantiate.simps)
qed

theorem register_overwrites_witness:
  "registry (snd (register ''analysis_one'' AnalysisStrategy startup)) ''analysis_one''
     = Some AnalysisStrategy
   \<and> fst (create ''analysis_one'' [StrArg ''data.csv'', StrArg ''age'', FnArg age_greater_than_30] []
       (snd (register ''analysis_one'' AnalysisOneStrategy
          (snd (register ''analysis_one'' AnalysisStrategy startup))))) =
       Inr (AnalysisOneStrategy_object
               \<lparr>steps = [ReadCSVStep (StrArg ''data.csv''),
                          FilterStep (StrArg ''age'') (FnArg age_greater_than_30)]\<rparr>)"
proof -
  have h: "registry (snd (register ''analysis_one'' AnalysisStrategy startup)) ''analysis_one''
     = Some AnalysisStrategy"
    by (simp add: register_def)
  show ?thesis
    using h register_overwrites [OF h, of AnalysisOneStrategy
        "[StrArg ''data.csv'', StrArg ''age'', FnArg age_greater_than_30]" "[]"
        "StrArg ''data.csv''" "StrArg ''age''" "FnArg age_greater_than_30"]
    by (simp add: register_def instantiate_positional del: instantiate.simps)
qed

text \<open>
  Claim C10. Executing a strategy leaves the registry as it was: \<^verbatim>\<open>execute\<close>,
  \<^verbatim>\<open>Pipeline.run\<close> and the \<^verbatim>\<open>process\<close> of every step end, returning or raising, in a
  world with the same registry, and so does \<^verbatim>\<open>create\<close>. Only \<^verbatim>\<open>register\<close> changes the
  registry, at the name it registers.
\<close>

theorem execution_preserves_registry:
  "registry (snd (execute obj w)) = registry w
   \<and> registry (snd (run p w)) = registry w
   \<and> registry (snd (process s d w)) = registry w
   \<and> registry (snd (create n args kwargs w)) = registry w
   \<and> registry (snd (register n cls w)) = (registry w)(n \<mapsto> cls)"
proof (intro conjI)
  show "registry (snd (execute obj w)) = registry w"
    by (cases obj) (simp add: run_def run_steps_registry registry_print)
  show "registry (snd (run p w)) = registry w"
    by (simp add: run_def run_steps_registry)
  show "registry (snd (process s d w)) = registry w"
    by (simp add: process_world registry_print)
  show "registry (snd (create n args kwargs w)) = registry w"
    by (simp add: create_def split: option.splits)
  show "registry (snd (register n cls w)) = (registry w)(n \<mapsto> cls)"
    by (simp add: register_def)
qed

section \<open>The run of main\<close>

text \<open>
  What \<^verbatim>\<open>main\<close> computes: \<^verbatim>\<open>create("analysis_one", "data.csv", "age", age_greater_than_30)\<close>
  followed by \<^verbatim>\<open>execute()\<close> returns the rows of Bob and Carol of \<^verbatim>\<open>data.csv\<close>, prints the
  three lines of the strategy and its two steps in order, and leaves the registry and
  the files as they were.
\<close>

theorem main_result:
  "(case create ''analysis_one'' [StrArg ''data.csv'', StrArg ''age'', FnArg age_greater_than_30] []
           startup of
      (Inl e, w) \<Rightarrow> (Inl e, w)
    | (Inr strategy, w) \<Rightarrow> execute strategy w) =
     (Inr (Table (data_csv\<lparr>rows :=
        [[(''name'', StrVal ''Bob''), (''age'', IntVal 35), (''salary'', IntVal 60000)],
         [(''name'', StrVal ''Carol''), (''age'', IntVal 45), (''salary'', IntVal 70000)]]\<rparr>)),
      startup\<lparr>stdout := [Text ''Running AnalysisOneStrategy...'',
                          Formatted ''Reading CSV from: '' (StrArg ''data.csv''),
                          Formatted ''Filtering on column: '' (StrArg ''age'')]\<rparr>)"
proof -
  have "create ''analysis_one'' [StrArg ''data.csv'', StrArg ''age'', FnArg age_greater_than_30] []
          startup =
        (Inr (AnalysisOneStrategy_object
                \<lparr>steps = [ReadCSVStep (StrArg ''data.csv''),
                           FilterStep (StrArg ''age'') (FnArg age_greater_than_30)]\<rparr>), startup)"
    by (simp add: create_calls_class startup_simps instantiate_positional del: instantiate.simps)
  then show ?thesis
    by (simp add: run_def read_csv_def print_def startup_simps filter_table_def
        getitem_column_def getitem_mask_def cell_def data_csv_def)
qed

end
